theory Spec2Isabelle
  imports Main
begin

section \<open>The state of the plugin and of the embedded interpreter\<close>

text \<open>
  \<^verbatim>\<open>python.cpp\<close> keeps the execution-control variables as file statics
  (\<^verbatim>\<open>ninsns\<close>, \<^verbatim>\<open>box_displayed\<close>, \<^verbatim>\<open>start_time\<close>, \<^verbatim>\<open>script_timeout\<close>,
  \<^verbatim>\<open>g_ui_ready\<close>) and talks to two collaborators: the host user interface
  (\<^verbatim>\<open>show_wait_box\<close>, \<^verbatim>\<open>hide_wait_box\<close>, \<^verbatim>\<open>msg\<close>) and the Python interpreter
  (the trace function set by \<^verbatim>\<open>PyEval_SetTrace\<close>, the interrupt raised by
  \<^verbatim>\<open>PyErr_SetInterrupt\<close>, reference counts, attribute tables, the module table and
  the error indicator). All of it is one record that every function takes and returns.
  Calls to the host user interface are appended to \<open>ui\<close> in the order they are made.
\<close>

type_synonym ref = nat

datatype trace_hook = NoTrace | BreakCheck

datatype ui_event = ShowWaitBox string | HideWaitBox | Msg string

record world =
  ninsns :: int
  box_displayed :: bool
  start_time :: int
  script_timeout :: int
  g_ui_ready :: bool
  tracefunc :: trace_hook
  interrupt :: bool
  ui :: "ui_event list"
  refcnt :: "ref \<Rightarrow> int"
  attrs :: "ref \<Rightarrow> string \<rightharpoonup> ref"
  strval :: "ref \<rightharpoonup> string"
  str_of :: "ref \<rightharpoonup> ref"
  modules :: "string \<rightharpoonup> ref"
  pyerr :: "string option"

section \<open>Execution control\<close>

text \<open>
  \<^verbatim>\<open>break_check\<close> (lines 137-165) is the trace callback. Its two inputs from outside
  are the answer of \<^verbatim>\<open>wasBreak()\<close> and the value of \<^verbatim>\<open>time(NULL)\<close>. The C
  condition \<^verbatim>\<open>!box_displayed && ++ninsns > 10\<close> short-circuits: the counter is
  incremented only when the box is not displayed. The callback always returns 0, which is
  left out. \<^verbatim>\<open>ENABLE_PYTHON_PROFILING\<close> is not defined (line 97 is a comment).
  The C \<^verbatim>\<open>int\<close> counter is an unbounded integer here: it is reset as soon as it
  exceeds 10 and so stays between 0 and 10 (lemma \<open>ninsns_range_break_check\<close>), far
  from any overflow.
\<close>

definition break_check :: "bool \<Rightarrow> int \<Rightarrow> world \<Rightarrow> world" where
  "break_check wasBreak now s =
     (if wasBreak then s\<lparr>interrupt := True\<rparr>
      else if \<not> box_displayed s then
        (let s1 = s\<lparr>ninsns := ninsns s + 1\<rparr> in
         if ninsns s1 > 10 then
           (let s2 = s1\<lparr>ninsns := 0\<rparr> in
            if script_timeout s2 \<noteq> 0 \<and> now - start_time s2 > script_timeout s2
            then s2\<lparr>box_displayed := True,
                    ui := ui s2 @ [ShowWaitBox ''Running Python script'']\<rparr>
            else s2)
         else s1)
      else s)"

definition reset_execution_time :: "int \<Rightarrow> world \<Rightarrow> world" where
  "reset_execution_time now s = s\<lparr>start_time := now, ninsns := 0\<rparr>"

definition hide_script_waitbox :: "world \<Rightarrow> world" where
  "hide_script_waitbox s =
     (if box_displayed s then s\<lparr>ui := ui s @ [HideWaitBox], box_displayed := False\<rparr>
      else s)"

definition end_execution :: "world \<Rightarrow> world" where
  "end_execution s = (hide_script_waitbox s)\<lparr>tracefunc := NoTrace\<rparr>"

definition begin_execution :: "int \<Rightarrow> world \<Rightarrow> world" where
  "begin_execution now s =
     (if \<not> g_ui_ready s \<or> script_timeout s = 0 then s
      else (reset_execution_time now (end_execution s))\<lparr>tracefunc := BreakCheck\<rparr>)"

text \<open>
  \<^verbatim>\<open>disable_script_timeout\<close> (lines 210-217) and \<^verbatim>\<open>set_script_timeout\<close>
  (lines 221-231), which returns the previous timeout. Its comment: "Reset the execution
  time and hide the waitbox (so it is shown again after timeout elapses)".
\<close>

definition disable_script_timeout :: "world \<Rightarrow> world" where
  "disable_script_timeout s = end_execution (s\<lparr>script_timeout := 0\<rparr>)"

definition set_script_timeout :: "int \<Rightarrow> int \<Rightarrow> world \<Rightarrow> int \<times> world" where
  "set_script_timeout timeout now s =
     (script_timeout s,
      hide_script_waitbox (reset_execution_time now (s\<lparr>script_timeout := timeout\<rparr>)))"

text \<open>
  What can happen between \<^verbatim>\<open>begin_execution\<close> and its matching
  \<^verbatim>\<open>end_execution\<close>: the interpreter calls the trace function, each call with its
  own answer of \<^verbatim>\<open>wasBreak()\<close> and its own clock value; the running script calls
  \<^verbatim>\<open>set_script_timeout\<close> or \<^verbatim>\<open>disable_script_timeout\<close>; the script re-enters
  the plugin (an adapter entry called from Python code), which calls
  \<^verbatim>\<open>begin_execution\<close> and later \<^verbatim>\<open>end_execution\<close> inside the window. The steps
  are taken in any order and number; a trace call is taken whether or not the hook is
  still installed, which only adds runs.
\<close>

datatype window_step =
    Hook bool int
  | SetScriptTimeout int int
  | DisableScriptTimeout
  | NestedBegin int
  | NestedEnd

fun window_run :: "window_step list \<Rightarrow> world \<Rightarrow> world" where
  "window_run [] s = s"
| "window_run (Hook wasBreak now # rest) s = window_run rest (break_check wasBreak now s)"
| "window_run (SetScriptTimeout timeout now # rest) s =
     window_run rest (snd (set_script_timeout timeout now s))"
| "window_run (DisableScriptTimeout # rest) s = window_run rest (disable_script_timeout s)"
| "window_run (NestedBegin now # rest) s = window_run rest (begin_execution now s)"
| "window_run (NestedEnd # rest) s = window_run rest (end_execution s)"




text \<open>A world for the concrete checks: user interface ready, timeout of 2 seconds.\<close>

definition idle_world :: world where
  "idle_world =
     \<lparr>ninsns = 0, box_displayed = False, start_time = 0, script_timeout = 2,
      g_ui_ready = True, tracefunc = NoTrace, interrupt = False, ui = [],
      refcnt = (\<lambda>_. 0), attrs = (\<lambda>_. Map.empty), strval = Map.empty,
      str_of = Map.empty, modules = Map.empty, pyerr = None\<rparr>"

section \<open>Strings and buffers\<close>

text \<open>
  A C string is the list of its characters before the terminating NUL. A \<^verbatim>\<open>char *\<close>
  output buffer is the string it holds; a function that writes a buffer takes the old
  content and returns the new one.

  Modelled from the spec: \<^verbatim>\<open>qstrncpy\<close> and \<^verbatim>\<open>qsnprintf\<close> belong to the host
  SDK and are not in \<^verbatim>\<open>src/\<close>. The spec says failures are reported "through a
  bounded-length message buffer (truncation allowed, never a buffer overrun)": at most
  \<open>dstsize - 1\<close> characters are stored, followed by the terminator, and a buffer of
  size 0 is left alone. \<^verbatim>\<open>qsnprintf\<close> takes the text already formatted.
\<close>

definition qstrncpy :: "string \<Rightarrow> string \<Rightarrow> nat \<Rightarrow> string" where
  "qstrncpy dst src dstsize = (if dstsize = 0 then dst else take (dstsize - 1) src)"

definition qsnprintf :: "string \<Rightarrow> nat \<Rightarrow> string \<Rightarrow> string" where
  "qsnprintf buf n formatted = (if n = 0 then buf else take (n - 1) formatted)"

text \<open>\<^verbatim>\<open>strchr\<close> and \<^verbatim>\<open>strrchr\<close> return the offset of the first (last) occurrence.\<close>

fun strchr :: "string \<Rightarrow> char \<Rightarrow> nat option" where
  "strchr [] c = None"
| "strchr (x # xs) c = (if x = c then Some 0 else map_option Suc (strchr xs c))"

fun strrchr :: "string \<Rightarrow> char \<Rightarrow> nat option" where
  "strrchr [] c = None"
| "strrchr (x # xs) c =
     (case strrchr xs c of
        Some i \<Rightarrow> Some (Suc i)
      | None \<Rightarrow> if x = c then Some 0 else None)"

text \<open>
  Modelled from the spec: \<^verbatim>\<open>qisspace\<close> is the host SDK's wrapper of the C library's
  \<^verbatim>\<open>isspace\<close> and is not in \<^verbatim>\<open>src/\<close>. The spec says the line "begins with leading
  whitespace"; the whitespace characters of the C locale are space, \<^verbatim>\<open>\t\<close>,
  \<^verbatim>\<open>\n\<close>, \<^verbatim>\<open>\v\<close>, \<^verbatim>\<open>\f\<close> and \<^verbatim>\<open>\r\<close>.
\<close>

definition qisspace :: "char \<Rightarrow> bool" where
  "qisspace c = (c = CHR '' '' \<or> ((9::nat) \<le> of_char c \<and> of_char c \<le> (13::nat)))"

text \<open>
  What aborts the plugin: a write past the end of a buffer, a failed \<^verbatim>\<open>QASSERT\<close>
  (an internal error with its code) and a dereferenced \<^verbatim>\<open>NULL\<close>.
\<close>

datatype fault = BufferOverrun | INTERR nat | NullDeref

section \<open>The name resolver\<close>

text \<open>
  \<^verbatim>\<open>parse_py_modname\<close> (lines 566-585). \<open>sz\<close> is the size of both output buffers.
  With a separator at offset \<open>p\<close> the module part is copied by
  \<^verbatim>\<open>qstrncpy(modname, full_name, p - full_name + 1)\<close>, whose size argument is not
  \<open>sz\<close>: it writes \<open>p + 1\<close> bytes whatever the buffer holds, which overruns the
  buffer when \<open>p + 1 > sz\<close>. The result is the returned flag with the new contents of
  \<^verbatim>\<open>modname\<close> and \<^verbatim>\<open>attrname\<close>.
\<close>

definition parse_py_modname ::
  "string \<Rightarrow> string \<Rightarrow> string \<Rightarrow> nat \<Rightarrow> string \<Rightarrow> fault + (bool \<times> string \<times> string)" where
  "parse_py_modname full_name modname attrname sz defmod =
     (case strchr full_name CHR ''.'' of
        None \<Rightarrow> Inr (False, qstrncpy modname defmod sz, qstrncpy attrname full_name sz)
      | Some p \<Rightarrow>
          if sz < p + 1 then Inl BufferOverrun
          else Inr (True, qstrncpy modname full_name (p + 1),
                    qstrncpy attrname (drop (p + 1) full_name) sz))"

section \<open>Host values and the functions that are not in the file\<close>

text \<open>
  Modelled from the spec: \<^verbatim>\<open>idc_value_t\<close> is declared by the host SDK, not in
  \<^verbatim>\<open>src/\<close>. The spec: a Host Value is "a tagged union representing the macro
  language's runtime value: absent, integer, floating, string, or opaque handle". Absent
  is a \<^verbatim>\<open>NULL\<close> pointer, that is \<open>None\<close>; the floating payload is never inspected
  by the functions below and is kept as its bits; an opaque handle holds the reference of
  the Python object it wraps. \<^verbatim>\<open>clear()\<close> leaves the number 0.
\<close>

datatype idc_value = VT_LONG int | VT_FLOAT int | VT_STR2 string | VT_OBJ ref

definition idc_clear :: idc_value where
  "idc_clear = VT_LONG 0"

text \<open>
  \<^verbatim>\<open>python.cpp\<close> includes \<^verbatim>\<open>pywraps.hpp\<close> and the Python headers, which are not in
  \<^verbatim>\<open>src/\<close>. What the file takes from them and cannot be read off its own text is a
  parameter: the conversion codes \<^verbatim>\<open>CIP_*\<close>, \<^verbatim>\<open>MAXSTR\<close>, the default module name,
  the converters between host values and Python objects, the \<^verbatim>\<open>PyW_*\<close> helpers, and
  every interpreter entry that runs Python code (import, call, compile, evaluate, print).
  Each of them takes the world and returns the world it leaves.
\<close>

record pyenv =
  CIP_FAILED :: int
  CIP_OK :: int
  CIP_OK_NODECREF :: int
  MAXSTR :: nat
  S_IDAAPI_MODNAME :: string
  Py_None :: ref
  pyvar_to_idcvar :: "ref \<Rightarrow> idc_value \<Rightarrow> world \<Rightarrow> int \<times> idc_value \<times> world"
  idcvar_to_pyvar :: "idc_value \<Rightarrow> world \<Rightarrow> int \<times> ref option \<times> world"
  pyw_convert_idc_args ::
    "idc_value list \<Rightarrow> bool \<Rightarrow> string \<Rightarrow> nat \<Rightarrow> world \<Rightarrow>
     (bool \<times> ref list \<times> bool list \<times> string) \<times> world"
  pyw_free_idc_args :: "ref list \<Rightarrow> bool list option \<Rightarrow> world \<Rightarrow> world"
  PyW_GetError :: "bool \<Rightarrow> world \<Rightarrow> bool \<times> string \<times> world"
  PyW_ObjectToString :: "ref \<Rightarrow> world \<Rightarrow> string option \<times> world"
  PyW_TryImportModule :: "string \<Rightarrow> world \<Rightarrow> ref option \<times> world"
  PyW_TryGetAttrString :: "ref \<Rightarrow> string \<Rightarrow> world \<Rightarrow> ref option \<times> world"
  PyModule_New :: "string \<Rightarrow> world \<Rightarrow> ref option \<times> world"
  PyImport_ImportModule :: "string \<Rightarrow> world \<Rightarrow> ref option \<times> world"
  PyFunction_GetCode :: "ref \<Rightarrow> world \<Rightarrow> ref option \<times> world"
  PyEval_EvalCodeEx :: "ref option \<Rightarrow> ref \<Rightarrow> ref list \<Rightarrow> world \<Rightarrow> ref option \<times> world"
  PyCallable_Check :: "ref \<Rightarrow> world \<Rightarrow> bool"
  PyObject_CallObject :: "ref \<Rightarrow> ref option \<Rightarrow> world \<Rightarrow> ref option \<times> world"
  Py_CompileStringFlags :: "string \<Rightarrow> world \<Rightarrow> ref option \<times> world"
  PyRun_SimpleString :: "string \<Rightarrow> world \<Rightarrow> world"
  PyEval_EvalCode :: "ref \<Rightarrow> ref option \<Rightarrow> world \<Rightarrow> ref option \<times> world"
  PyErr_Print :: "world \<Rightarrow> world"

section \<open>The interpreter entries the file uses on plain data\<close>

text \<open>
  Reference counts, the error indicator, attribute tables and the module table are data
  of the world. \<^verbatim>\<open>Py_DECREF\<close> lowers a count by one (what the interpreter does to an
  object whose count reaches 0 is not modelled). \<^verbatim>\<open>PyObject_GetAttrString\<close> returns a
  new reference or \<^verbatim>\<open>NULL\<close> with an error pending. \<^verbatim>\<open>PyObject_Str\<close> returns a
  string object itself, or the object \<open>str_of\<close> gives, as a new reference.
  \<^verbatim>\<open>PyString_AsString\<close> gives the characters of a string object and fails with an
  error on anything else. A module's dictionary is its attribute table:
  \<^verbatim>\<open>PyModule_GetDict\<close> hands the module on and \<^verbatim>\<open>PyDict_GetItemString\<close> reads the
  table, returning a borrowed reference and setting no error. \<^verbatim>\<open>PyImport_AddModule\<close>
  returns the module of that name from the module table and creates and registers it
  when there is none.
\<close>

definition S_MAIN :: string where
  "S_MAIN = ''__main__''"

definition Py_INCREF :: "ref \<Rightarrow> world \<Rightarrow> world" where
  "Py_INCREF r s = s\<lparr>refcnt := (refcnt s)(r := refcnt s r + 1)\<rparr>"

definition Py_DECREF :: "ref \<Rightarrow> world \<Rightarrow> world" where
  "Py_DECREF r s = s\<lparr>refcnt := (refcnt s)(r := refcnt s r - 1)\<rparr>"

definition Py_XDECREF :: "ref option \<Rightarrow> world \<Rightarrow> world" where
  "Py_XDECREF p s = (case p of None \<Rightarrow> s | Some r \<Rightarrow> Py_DECREF r s)"

definition PyErr_Occurred :: "world \<Rightarrow> bool" where
  "PyErr_Occurred s = (pyerr s \<noteq> None)"

definition PyErr_Clear :: "world \<Rightarrow> world" where
  "PyErr_Clear s = s\<lparr>pyerr := None\<rparr>"

definition PyObject_GetAttrString :: "ref \<Rightarrow> string \<Rightarrow> world \<Rightarrow> ref option \<times> world" where
  "PyObject_GetAttrString obj name s =
     (case attrs s obj name of
        Some v \<Rightarrow> (Some v, Py_INCREF v s)
      | None \<Rightarrow> (None, s\<lparr>pyerr := Some (''AttributeError: '' @ name)\<rparr>))"

definition PyObject_Str :: "ref \<Rightarrow> world \<Rightarrow> ref option \<times> world" where
  "PyObject_Str obj s =
     (case strval s obj of
        Some _ \<Rightarrow> (Some obj, Py_INCREF obj s)
      | None \<Rightarrow>
          (case str_of s obj of
             Some r \<Rightarrow> (Some r, Py_INCREF r s)
           | None \<Rightarrow> (None, s\<lparr>pyerr := Some ''TypeError: __str__''\<rparr>)))"

definition PyString_AsString :: "ref \<Rightarrow> world \<Rightarrow> string option \<times> world" where
  "PyString_AsString obj s =
     (case strval s obj of
        Some text \<Rightarrow> (Some text, s)
      | None \<Rightarrow> (None, s\<lparr>pyerr := Some ''TypeError: expected string''\<rparr>))"

definition PyDict_GetItemString :: "world \<Rightarrow> ref \<Rightarrow> string \<Rightarrow> ref option" where
  "PyDict_GetItemString s dict key = attrs s dict key"

definition PyModule_GetDict :: "ref option \<Rightarrow> ref option" where
  "PyModule_GetDict module = module"

definition PyImport_AddModule :: "pyenv \<Rightarrow> string \<Rightarrow> world \<Rightarrow> ref option \<times> world" where
  "PyImport_AddModule env name s =
     (case modules s name of
        Some m \<Rightarrow> (Some m, s)
      | None \<Rightarrow>
          (case PyModule_New env name s of
             (None, s1) \<Rightarrow> (None, s1)
           | (Some m, s1) \<Rightarrow> (Some m, s1\<lparr>modules := (modules s1)(name \<mapsto> m)\<rparr>)))"

definition msg :: "string \<Rightarrow> world \<Rightarrow> world" where
  "msg text s = s\<lparr>ui := ui s @ [Msg text]\<rparr>"

section \<open>Errors, the main namespace and evaluation\<close>

text \<open>
  \<^verbatim>\<open>handle_python_error\<close> (lines 235-250) returns the new content of the error
  buffer. \<^verbatim>\<open>GetMainGlobals\<close> (lines 255-259).
\<close>

definition handle_python_error ::
  "pyenv \<Rightarrow> string \<Rightarrow> nat \<Rightarrow> bool \<Rightarrow> world \<Rightarrow> string \<times> world" where
  "handle_python_error env errbuf errbufsize clear_error s =
     (let errbuf1 = (if errbufsize > 0 then [] else errbuf) in
      if \<not> PyErr_Occurred s then (errbuf1, s)
      else
        (case PyW_GetError env clear_error s of
           (got, text, s1) \<Rightarrow>
             (if got then qstrncpy errbuf1 text errbufsize else errbuf1, s1)))"

definition GetMainGlobals :: "pyenv \<Rightarrow> world \<Rightarrow> ref option \<times> world" where
  "GetMainGlobals env s =
     (case PyImport_AddModule env S_MAIN s of
        (module, s1) \<Rightarrow> (if module = None then None else PyModule_GetDict module, s1))"

text \<open>\<^verbatim>\<open>PythonEvalOrExec\<close> (lines 262-298), with the default file name.\<close>

definition PythonEvalOrExec :: "pyenv \<Rightarrow> string \<Rightarrow> world \<Rightarrow> world" where
  "PythonEvalOrExec env str s =
     (case Py_CompileStringFlags env str s of
        (py_code, s1) \<Rightarrow>
          (case py_code of
             None \<Rightarrow> PyRun_SimpleString env str (PyErr_Clear s1)
           | Some code \<Rightarrow>
               if PyErr_Occurred s1 then PyRun_SimpleString env str (PyErr_Clear s1)
               else
                 (case GetMainGlobals env s1 of
                    (py_globals, s2) \<Rightarrow>
                      (case PyEval_EvalCode env code py_globals s2 of
                         (py_result, s3) \<Rightarrow>
                           (let s4 = Py_DECREF code s3 in
                            case py_result of
                              None \<Rightarrow> PyErr_Print env s4
                            | Some r \<Rightarrow>
                                if PyErr_Occurred s4 then PyErr_Print env s4
                                else if r \<noteq> Py_None env then
                                  (case PyW_ObjectToString env r s4 of
                                     (Some result_str, s5) \<Rightarrow>
                                       Py_DECREF r (msg (result_str @ [CHR 0x0A]) s5)
                                   | (None, s5) \<Rightarrow> Py_DECREF r s5)
                                else Py_DECREF r s4)))))"

section \<open>Returning a Python result to the host\<close>

text \<open>
  \<^verbatim>\<open>return_python_result\<close> (lines 590-618). \<open>idc_result\<close> is \<open>None\<close> for a
  \<^verbatim>\<open>NULL\<close> pointer and otherwise the value the pointer refers to; the function returns
  its flag, the value left behind the pointer, the error buffer and the world.
\<close>

definition return_python_result ::
  "pyenv \<Rightarrow> idc_value option \<Rightarrow> ref option \<Rightarrow> string \<Rightarrow> nat \<Rightarrow> world \<Rightarrow>
   bool \<times> idc_value option \<times> string \<times> world" where
  "return_python_result env idc_result py_result errbuf errbufsize s =
     (let errbuf1 = (if errbufsize > 0 then [] else errbuf) in
      case py_result of
        None \<Rightarrow>
          (case handle_python_error env errbuf1 errbufsize True s of
             (errbuf2, s1) \<Rightarrow> (False, idc_result, errbuf2, s1))
      | Some r \<Rightarrow>
          (case
             (case idc_result of
                None \<Rightarrow> (CIP_OK env, None, errbuf1, s)
              | Some _ \<Rightarrow>
                  (case pyvar_to_idcvar env r idc_clear s of
                     (cvt, v, s1) \<Rightarrow>
                       (cvt, Some v,
                        if cvt < CIP_OK env
                        then qsnprintf errbuf1 errbufsize ''ERROR: bad return value''
                        else errbuf1,
                        s1)))
           of (cvt, idc_result1, errbuf2, s1) \<Rightarrow>
             (cvt \<ge> CIP_OK env, idc_result1, errbuf2,
              if cvt \<noteq> CIP_OK_NODECREF env then Py_XDECREF (Some r) s1 else s1)))"

section \<open>The external-language adapter\<close>

text \<open>
  \<^verbatim>\<open>IDAPython_extlang_run\<close> (lines 663-727). \<^verbatim>\<open>nargs\<close> is the length of
  \<open>args\<close>; \<^verbatim>\<open>modname\<close> and \<^verbatim>\<open>funcname\<close> start zeroed. Every way out of the
  \<^verbatim>\<open>do\<close> block passes through the lines after it (721-726), here \<open>run_exit\<close>.
  \<^verbatim>\<open>PyModule_GetDict\<close> of a module that could not be imported gives no dictionary,
  which \<^verbatim>\<open>QASSERT(30157, ...)\<close> turns into an internal error.
\<close>

definition run_exit ::
  "pyenv \<Rightarrow> bool \<Rightarrow> ref option \<Rightarrow> ref list \<Rightarrow> bool list \<Rightarrow>
   bool \<times> idc_value option \<times> string \<times> world \<Rightarrow>
   bool \<times> idc_value option \<times> string \<times> world" where
  "run_exit env imported_module module pargs decref out =
     (case out of
        (ok, result, errbuf, s) \<Rightarrow>
          (let s1 = pyw_free_idc_args env pargs (Some decref) s;
               s2 = (if imported_module then Py_XDECREF module s1 else s1)
           in (ok, result, errbuf, s2)))"

definition IDAPython_extlang_run ::
  "pyenv \<Rightarrow> string \<Rightarrow> idc_value list \<Rightarrow> idc_value option \<Rightarrow> string \<Rightarrow> nat \<Rightarrow> world \<Rightarrow>
   fault + (bool \<times> idc_value option \<times> string \<times> world)" where
  "IDAPython_extlang_run env name args result errbuf errbufsize s =
     (case parse_py_modname name [] [] (MAXSTR env) (S_IDAAPI_MODNAME env) of
        Inl f \<Rightarrow> Inl f
      | Inr (imported_module, modname, funcname) \<Rightarrow>
          (case pyw_convert_idc_args env args True errbuf errbufsize s of
             ((ok, pargs, decref, errbuf1), s1) \<Rightarrow>
               if \<not> ok
               then Inr (run_exit env imported_module None pargs decref
                           (False, result, errbuf1, s1))
               else
                 (case (if imported_module then PyImport_ImportModule env modname s1
                        else PyImport_AddModule env S_MAIN s1) of
                    (module, s2) \<Rightarrow>
                      if \<not> imported_module \<and> module = None then Inl (INTERR 30156)
                      else
                        (case PyModule_GetDict module of
                           None \<Rightarrow> Inl (INTERR 30157)
                         | Some globals \<Rightarrow>
                             (case PyDict_GetItemString s2 globals funcname of
                                None \<Rightarrow>
                                  Inr (run_exit env imported_module module pargs decref
                                         (False, result,
                                          qsnprintf errbuf1 errbufsize
                                            (''undefined function '' @ name),
                                          s2))
                              | Some func \<Rightarrow>
                                  (case PyFunction_GetCode env func s2 of
                                     (code, s3) \<Rightarrow>
                                       (case PyEval_EvalCodeEx env code globals pargs s3 of
                                          (pres, s4) \<Rightarrow>
                                            Inr (run_exit env imported_module module
                                                   pargs decref
                                                   (return_python_result env result pres
                                                      errbuf1 errbufsize s4)))))))))"

text \<open>
  \<^verbatim>\<open>IDAPython_extlang_get_attr\<close> (lines 801-920). \<open>obj\<close>, \<open>attr\<close> and
  \<open>result\<close> are \<open>None\<close> for \<^verbatim>\<open>NULL\<close>. Every \<^verbatim>\<open>break\<close> and the end of the
  \<^verbatim>\<open>do\<close> block lead to lines 912-919, here \<open>get_attr_exit\<close>.
  \<open>get_attr_object\<close> is lines 816-848: it finds the object to work on and says
  whether the block goes on (it does not after a \<^verbatim>\<open>break\<close>).
  In the special case of lines 851-879 the C string is taken from \<^verbatim>\<open>name\<close>, after
  its \<^verbatim>\<open>Py_DECREF\<close>, not from \<^verbatim>\<open>string\<close>, and \<^verbatim>\<open>string\<close> is not released;
  \<^verbatim>\<open>result->set_string\<close> dereferences \<open>result\<close>.
\<close>

definition get_attr_exit ::
  "pyenv \<Rightarrow> idc_value option \<Rightarrow> int \<Rightarrow> ref option \<Rightarrow> ref option \<Rightarrow> bool \<Rightarrow>
   idc_value option \<Rightarrow> world \<Rightarrow> bool \<times> idc_value option \<times> world" where
  "get_attr_exit env obj cvt py_mod py_obj is_opaque_obj result s =
     (let s1 = Py_XDECREF py_mod s;
          s2 = (if obj \<noteq> None \<and> \<not> is_opaque_obj then Py_XDECREF py_obj s1 else s1)
      in (cvt \<ge> CIP_OK env, result, s2))"

definition get_attr_object ::
  "pyenv \<Rightarrow> idc_value option \<Rightarrow> ref \<Rightarrow> world \<Rightarrow> bool \<times> int \<times> ref option \<times> bool \<times> world" where
  "get_attr_object env obj py_mod s =
     (case obj of
        None \<Rightarrow> (True, CIP_FAILED env, Some py_mod, False, s)
      | Some (VT_STR2 name) \<Rightarrow>
          (case PyW_TryGetAttrString env py_mod name s of
             (py_obj, s1) \<Rightarrow> (py_obj \<noteq> None, CIP_FAILED env, py_obj, False, s1))
      | Some v \<Rightarrow>
          (case idcvar_to_pyvar env v s of
             (cvt, py_obj, s1) \<Rightarrow>
               if cvt \<noteq> CIP_OK_NODECREF env
               then (False, CIP_FAILED env, None, False, Py_XDECREF py_obj s1)
               else (py_obj \<noteq> None, cvt, py_obj, True, s1)))"

definition IDAPython_extlang_get_attr ::
  "pyenv \<Rightarrow> idc_value option \<Rightarrow> string option \<Rightarrow> idc_value option \<Rightarrow> world \<Rightarrow>
   fault + (bool \<times> idc_value option \<times> world)" where
  "IDAPython_extlang_get_attr env obj attr result s =
     (case PyW_TryImportModule env S_MAIN s of
        (None, s1) \<Rightarrow> Inr (get_attr_exit env obj (CIP_FAILED env) None None False result s1)
      | (Some py_mod, s1) \<Rightarrow>
          (case get_attr_object env obj py_mod s1 of
             (goes_on, cvt, py_obj, is_opaque_obj, s2) \<Rightarrow>
               (case (if goes_on then py_obj else None) of
                  None \<Rightarrow>
                    Inr (get_attr_exit env obj cvt (Some py_mod) py_obj is_opaque_obj result s2)
                | Some ob \<Rightarrow>
                    if attr = None \<or> attr = Some [] then
                      (case PyObject_GetAttrString ob ''__class__'' s2 of
                         (None, s3) \<Rightarrow>
                           Inr (get_attr_exit env obj (CIP_FAILED env) (Some py_mod) py_obj
                                  is_opaque_obj result s3)
                       | (Some cls, s3) \<Rightarrow>
                           (case PyObject_GetAttrString cls ''__name__'' s3 of
                              (name, s4) \<Rightarrow>
                                (let s5 = Py_DECREF cls s4 in
                                 case name of
                                   None \<Rightarrow>
                                     Inr (get_attr_exit env obj (CIP_FAILED env) (Some py_mod)
                                            py_obj is_opaque_obj result s5)
                                 | Some nm \<Rightarrow>
                                     (case PyObject_Str nm s5 of
                                        (string, s6) \<Rightarrow>
                                          (let s7 = Py_DECREF nm s6 in
                                           if string = None then
                                             Inr (get_attr_exit env obj (CIP_FAILED env)
                                                    (Some py_mod) py_obj is_opaque_obj result s7)
                                           else
                                             (case PyString_AsString nm s7 of
                                                (None, s8) \<Rightarrow>
                                                  Inr (get_attr_exit env obj (CIP_FAILED env)
                                                         (Some py_mod) py_obj is_opaque_obj
                                                         result s8)
                                              | (Some clsname, s8) \<Rightarrow>
                                                  if result = None then Inl NullDeref
                                                  else
                                                    Inr (get_attr_exit env obj (CIP_OK env)
                                                           (Some py_mod) py_obj is_opaque_obj
                                                           (Some (VT_STR2 clsname)) s8)))))))
                    else
                      (case PyW_TryGetAttrString env ob (the attr) s2 of
                         (None, s3) \<Rightarrow>
                           Inr (get_attr_exit env obj (CIP_FAILED env) (Some py_mod) py_obj
                                  is_opaque_obj result s3)
                       | (Some py_attr, s3) \<Rightarrow>
                           (case result of
                              None \<Rightarrow>
                                Inr (get_attr_exit env obj (CIP_OK env) (Some py_mod) py_obj
                                       is_opaque_obj None (Py_DECREF py_attr s3))
                            | Some old \<Rightarrow>
                                (case pyvar_to_idcvar env py_attr old s3 of
                                   (cvt1, v, s4) \<Rightarrow>
                                     Inr (get_attr_exit env obj cvt1 (Some py_mod) py_obj
                                            is_opaque_obj (Some v)
                                            (if cvt1 \<ge> CIP_OK env \<and> cvt1 \<noteq> CIP_OK_NODECREF env
                                             then Py_DECREF py_attr s4 else s4))))))))"

text \<open>
  \<^verbatim>\<open>IDAPython_extlang_call_method\<close> (lines 1008-1070). The first test of the source,
  \<^verbatim>\<open>(idc_obj == NULL && method_name == NULL) || (idc_obj != NULL && method_name == NULL)\<close>,
  and the second, \<^verbatim>\<open>idc_obj == NULL && method_name != NULL\<close>, are the first three
  cases below. Lines 1061-1069 are \<open>call_method_exit\<close>. \<^verbatim>\<open>PyW_TryGetAttrString\<close>
  needs an object: a \<^verbatim>\<open>NULL\<close> one is a dereferenced \<^verbatim>\<open>NULL\<close>.
\<close>

definition call_method_exit ::
  "pyenv \<Rightarrow> int \<Rightarrow> ref option \<Rightarrow> ref option \<Rightarrow> ref list \<Rightarrow>
   bool \<times> idc_value option \<times> string \<times> world \<Rightarrow>
   bool \<times> idc_value option \<times> string \<times> world" where
  "call_method_exit env obj_cvt py_obj py_method pargs out =
     (case out of
        (ok, result, errbuf, s) \<Rightarrow>
          (let s1 = pyw_free_idc_args env pargs None s;
               s2 = (if obj_cvt \<noteq> CIP_OK_NODECREF env then Py_XDECREF py_obj s1 else s1);
               s3 = Py_XDECREF py_method s2
           in (ok, result, errbuf, s3)))"

definition IDAPython_extlang_call_method ::
  "pyenv \<Rightarrow> idc_value option \<Rightarrow> string option \<Rightarrow> idc_value list \<Rightarrow> idc_value option \<Rightarrow>
   string \<Rightarrow> nat \<Rightarrow> world \<Rightarrow> fault + (bool \<times> idc_value option \<times> string \<times> world)" where
  "IDAPython_extlang_call_method env idc_obj method_name args result errbuf errbufsize s =
     (case (idc_obj, method_name) of
        (None, None) \<Rightarrow>
          Inr (False, result,
               qstrncpy errbuf ''call_method does not support this operation'' errbufsize, s)
      | (Some _, None) \<Rightarrow>
          Inr (False, result,
               qstrncpy errbuf ''call_method does not support this operation'' errbufsize, s)
      | (None, Some method) \<Rightarrow>
          IDAPython_extlang_run env method args result errbuf errbufsize s
      | (Some obj, Some method) \<Rightarrow>
          (case idcvar_to_pyvar env obj s of
             (obj_cvt, py_obj, s1) \<Rightarrow>
               if obj_cvt < CIP_OK env then
                 Inr (call_method_exit env obj_cvt py_obj None []
                        (False, result,
                         qstrncpy errbuf ''Failed to convert input object to Python value''
                           errbufsize,
                         s1))
               else
                 (case py_obj of
                    None \<Rightarrow> Inl NullDeref
                  | Some ob \<Rightarrow>
                      (case PyW_TryGetAttrString env ob method s1 of
                         (py_method, s2) \<Rightarrow>
                           if py_method = None \<or> \<not> PyCallable_Check env (the py_method) s2 then
                             Inr (call_method_exit env obj_cvt py_obj py_method []
                                    (False, result,
                                     qsnprintf errbuf errbufsize
                                       (''The input object does not have a callable method called ''
                                        @ [CHR 0x27] @ method @ [CHR 0x27]),
                                     s2))
                           else
                             (case pyw_convert_idc_args env args False errbuf errbufsize s2 of
                                ((ok, pargs, decref, errbuf1), s3) \<Rightarrow>
                                  if \<not> ok then
                                    Inr (call_method_exit env obj_cvt py_obj py_method pargs
                                           (False, result, errbuf1, s3))
                                  else
                                    (case PyObject_CallObject env (the py_method)
                                            (if pargs = [] then None else Some (hd pargs)) s3 of
                                       (py_res, s4) \<Rightarrow>
                                         Inr (call_method_exit env obj_cvt py_obj py_method pargs
                                                (return_python_result env result py_res
                                                   errbuf1 errbufsize s4))))))))"

section \<open>The interactive line\<close>

text \<open>
  \<^verbatim>\<open>IDAPython_cli_execute_line\<close> (lines 1101-1145). \<open>now\<close> is the clock value
  \<^verbatim>\<open>begin_execution\<close> reads. \<open>cli_last_line\<close> is lines 1107-1111 and
  \<open>cli_pseudo_command\<close> lines 1125-1138.
\<close>

definition cli_last_line :: "string \<Rightarrow> string" where
  "cli_last_line line =
     (case strrchr line (CHR 0x0A) of
        None \<Rightarrow> line
      | Some i \<Rightarrow> drop (i + 1) line)"

definition cli_pseudo_command :: "string \<Rightarrow> string" where
  "cli_pseudo_command line =
     (if hd line = CHR ''?'' then ''help('' @ tl line @ '')''
      else if hd line = CHR ''!'' then
        ''idaapi.IDAPython_ExecSystem(r'' @ [CHR 0x27] @ tl line @ [CHR 0x27] @ '')''
      else line)"

definition IDAPython_cli_execute_line :: "pyenv \<Rightarrow> int \<Rightarrow> string \<Rightarrow> world \<Rightarrow> bool \<times> world" where
  "IDAPython_cli_execute_line env now line s =
     (if line = [] then (True, s)
      else
        (let last_line = cli_last_line line in
         if last_line \<noteq> [] \<and>
            (last last_line = CHR '':'' \<or> qisspace (hd last_line))
         then (False, s)
         else
           (True,
            end_execution
              (PythonEvalOrExec env (cli_pseudo_command line) (begin_execution now s)))))"


section \<open>Notions the claims use\<close>

text \<open>
  The conversion outcome of \<^verbatim>\<open>return_python_result\<close>: the value of \<^verbatim>\<open>cvt\<close> after
  lines 605-612, with the world at that point. It is \<^verbatim>\<open>CIP_OK\<close> when there is no
  result slot, and what \<^verbatim>\<open>pyvar_to_idcvar\<close> answers otherwise.
\<close>

definition conversion_outcome :: "pyenv \<Rightarrow> idc_value option \<Rightarrow> ref \<Rightarrow> world \<Rightarrow> int \<times> world" where
  "conversion_outcome env idc_result r s =
     (case idc_result of
        None \<Rightarrow> (CIP_OK env, s)
      | Some _ \<Rightarrow> (case pyvar_to_idcvar env r idc_clear s of (cvt, v, s1) \<Rightarrow> (cvt, s1)))"

text \<open>
  The global namespace is the attribute table of the module \<^verbatim>\<open>__main__\<close> (empty when
  no such module is loaded).
\<close>

definition global_namespace :: "world \<Rightarrow> string \<rightharpoonup> ref" where
  "global_namespace s = (case modules s S_MAIN of None \<Rightarrow> Map.empty | Some g \<Rightarrow> attrs s g)"



section \<open>A concrete environment and world\<close>

text \<open>
  One instance of the parameters, for the concrete checks. Strings convert by value with
  \<^verbatim>\<open>CIP_OK\<close>, every other object is wrapped as an opaque handle with
  \<^verbatim>\<open>CIP_OK_NODECREF\<close>; only opaque handles convert back; only the empty argument list
  converts; the \<^verbatim>\<open>PyW_Try*\<close> helpers read the tables and return new references;
  \<^verbatim>\<open>PyRun_SimpleString\<close> records the text it is given on the host's message log.
\<close>

definition sample_env :: pyenv where
  "sample_env =
     \<lparr>CIP_FAILED = - 1, CIP_OK = 1, CIP_OK_NODECREF = 2, MAXSTR = 1024,
      S_IDAAPI_MODNAME = ''idaapi'', Py_None = 0,
      pyvar_to_idcvar = (\<lambda>r old s.
        case strval s r of Some t \<Rightarrow> (1, VT_STR2 t, s) | None \<Rightarrow> (2, VT_OBJ r, s)),
      idcvar_to_pyvar = (\<lambda>v s.
        case v of VT_OBJ r \<Rightarrow> (2, Some r, s) | _ \<Rightarrow> (- 1, None, s)),
      pyw_convert_idc_args = (\<lambda>args with_decref errbuf n s. ((args = [], [], [], errbuf), s)),
      pyw_free_idc_args = (\<lambda>pargs decref s. s),
      PyW_GetError = (\<lambda>clear s.
        case pyerr s of
          None \<Rightarrow> (False, [], s)
        | Some m \<Rightarrow> (True, m, if clear then s\<lparr>pyerr := None\<rparr> else s)),
      PyW_ObjectToString = (\<lambda>r s. (strval s r, s)),
      PyW_TryImportModule = (\<lambda>name s.
        case modules s name of None \<Rightarrow> (None, s) | Some m \<Rightarrow> (Some m, Py_INCREF m s)),
      PyW_TryGetAttrString = (\<lambda>ob a s.
        case attrs s ob a of None \<Rightarrow> (None, s) | Some v \<Rightarrow> (Some v, Py_INCREF v s)),
      PyModule_New = (\<lambda>name s. (None, s)),
      PyImport_ImportModule = (\<lambda>name s.
        case modules s name of
          None \<Rightarrow> (None, s\<lparr>pyerr := Some (''ImportError: '' @ name)\<rparr>)
        | Some m \<Rightarrow> (Some m, Py_INCREF m s)),
      PyFunction_GetCode = (\<lambda>f s. (Some f, s)),
      PyEval_EvalCodeEx = (\<lambda>code globals pargs s. (None, s\<lparr>pyerr := Some ''error''\<rparr>)),
      PyCallable_Check = (\<lambda>ob s. False),
      PyObject_CallObject = (\<lambda>f a s. (None, s\<lparr>pyerr := Some ''error''\<rparr>)),
      Py_CompileStringFlags = (\<lambda>str s. (None, s\<lparr>pyerr := Some ''SyntaxError''\<rparr>)),
      PyRun_SimpleString = (\<lambda>str s. msg str s),
      PyEval_EvalCode = (\<lambda>code globals s. (None, s)),
      PyErr_Print = (\<lambda>s. PyErr_Clear s)\<rparr>"

text \<open>
  A world with \<^verbatim>\<open>__main__\<close> loaded as object 1. Its namespace binds \<^verbatim>\<open>x\<close> to
  object 2, an instance of the class 3 whose name is the string object 4,
  \<^verbatim>\<open>"Widget"\<close>. Object 7 has no attribute that can be fetched. Every count is 1.
\<close>

definition sample_world :: world where
  "sample_world =
     idle_world
       \<lparr>refcnt := (\<lambda>_. 1),
        attrs := (\<lambda>_. Map.empty)
          (1 := [''x'' \<mapsto> 2], 2 := [''__class__'' \<mapsto> 3], 3 := [''__name__'' \<mapsto> 4]),
        strval := [4 \<mapsto> ''Widget''],
        modules := [''__main__'' \<mapsto> 1]\<rparr>"



section \<open>Theorems\<close>









lemma ninsns_range_break_check:
  "0 \<le> ninsns s \<and> ninsns s \<le> 10 \<Longrightarrow>
   0 \<le> ninsns (break_check b now s) \<and> ninsns (break_check b now s) \<le> 10"
  by (simp add: break_check_def Let_def)

text \<open>
  C2 as the claim states it fails: \<^verbatim>\<open>end_execution\<close> always passes \<^verbatim>\<open>NULL\<close> to
  \<^verbatim>\<open>PyEval_SetTrace\<close> and nothing in the file remembers an earlier trace function.
  With the user interface ready and a timeout of 2, the outer window installs
  \<^verbatim>\<open>break_check\<close>; after a nested \<^verbatim>\<open>begin_execution\<close> and its matching
  \<^verbatim>\<open>end_execution\<close> no trace function is installed.
\<close>

theorem nested_exit_leaves_hook_uninstalled:
  "tracefunc (begin_execution 0 idle_world) = BreakCheck \<and>
   tracefunc (end_execution (begin_execution 1 (begin_execution 0 idle_world))) = NoTrace"
  by (simp add: begin_execution_def end_execution_def hide_script_waitbox_def
      reset_execution_time_def idle_world_def)

text \<open>
  C2, amended: when the user interface is ready and the timeout is not 0,
  \<^verbatim>\<open>begin_execution\<close> first ends whatever window is active (it hides the wait box if
  it is shown and clears the flag) and then installs \<^verbatim>\<open>break_check\<close> afresh with
  the new start time and a zeroed counter, changing nothing else; otherwise it does
  nothing. So a nested entry re-establishes the hook idempotently: entering twice leaves
  the same state as entering once at the later time. \<^verbatim>\<open>end_execution\<close> hides the
  box if it is shown and uninstalls the trace function whatever was installed before,
  changing nothing else: after the inner exit no hook is installed, and no previous hook
  is saved or restored.
\<close>

theorem nested_begin_reinstalls_end_uninstalls:
  "begin_execution t s =
     (if g_ui_ready s \<and> script_timeout s \<noteq> 0
      then s\<lparr>ui := (if box_displayed s then ui s @ [HideWaitBox] else ui s),
             box_displayed := False, start_time := t, ninsns := 0,
             tracefunc := BreakCheck\<rparr>
      else s) \<and>
   end_execution s =
     s\<lparr>ui := (if box_displayed s then ui s @ [HideWaitBox] else ui s),
       box_displayed := False, tracefunc := NoTrace\<rparr> \<and>
   begin_execution t' (begin_execution t s) = begin_execution t' s \<and>
   tracefunc (end_execution (begin_execution t' (begin_execution t s))) = NoTrace"
  by (simp add: begin_execution_def end_execution_def hide_script_waitbox_def
      reset_execution_time_def)

text \<open>
  C3 as the claim states it fails: when no cancel is pending but the wait box is already
  displayed, \<^verbatim>\<open>break_check\<close> does not increment the sample counter (the test
  \<^verbatim>\<open>!box_displayed\<close> comes first and short-circuits \<^verbatim>\<open>++ninsns\<close>). After
  \<^verbatim>\<open>begin_execution\<close> at time 0 and 11 calls of the trace function at time 100 the
  box is displayed and the counter is 0; the next call leaves the counter at 0.
\<close>

theorem break_check_box_displayed_no_count:
  "box_displayed (window_run (replicate 11 (Hook False 100)) (begin_execution 0 idle_world)) \<and>
   ninsns (window_run (replicate 11 (Hook False 100)) (begin_execution 0 idle_world)) = 0 \<and>
   ninsns (break_check False 100
      (window_run (replicate 11 (Hook False 100)) (begin_execution 0 idle_world))) = 0 \<and>
   ninsns (break_check False 100
      (window_run (replicate 11 (Hook False 100)) (begin_execution 0 idle_world)))
     \<noteq> ninsns (window_run (replicate 11 (Hook False 100)) (begin_execution 0 idle_world)) + 1"
  by (simp add: numeral_eq_Suc begin_execution_def end_execution_def
      hide_script_waitbox_def reset_execution_time_def idle_world_def break_check_def Let_def)

text \<open>
  C3, amended: on every invocation of \<^verbatim>\<open>break_check\<close>: if a user cancel is pending it
  raises the interrupt (\<^verbatim>\<open>PyErr_SetInterrupt\<close>) and changes nothing else, the sample
  counter included; otherwise, if the wait box is already displayed, it does nothing;
  otherwise it increments the sample counter and, once the incremented counter exceeds
  10, resets it to zero and shows the box "Running Python script" (setting
  \<^verbatim>\<open>box_displayed\<close>) when the timeout is nonzero and the elapsed time exceeds it.
\<close>

theorem break_check_cases:
  "break_check True now s = s\<lparr>interrupt := True\<rparr> \<and>
   ninsns (break_check True now s) = ninsns s \<and>
   (box_displayed s \<longrightarrow> break_check False now s = s) \<and>
   (\<not> box_displayed s \<and> ninsns s + 1 \<le> 10 \<longrightarrow>
      break_check False now s = s\<lparr>ninsns := ninsns s + 1\<rparr>) \<and>
   (\<not> box_displayed s \<and> ninsns s + 1 > 10 \<and>
    script_timeout s \<noteq> 0 \<and> now - start_time s > script_timeout s \<longrightarrow>
      break_check False now s =
        s\<lparr>ninsns := 0, box_displayed := True,
          ui := ui s @ [ShowWaitBox ''Running Python script'']\<rparr>) \<and>
   (\<not> box_displayed s \<and> ninsns s + 1 > 10 \<and>
    \<not> (script_timeout s \<noteq> 0 \<and> now - start_time s > script_timeout s) \<longrightarrow>
      break_check False now s = s\<lparr>ninsns := 0\<rparr>)"
  by (simp add: break_check_def Let_def)

theorem break_check_cases_witness:
  "break_check False 5 (idle_world\<lparr>ninsns := 10\<rparr>) =
     idle_world\<lparr>ninsns := 0, box_displayed := True,
       ui := [ShowWaitBox ''Running Python script'']\<rparr> \<and>
   break_check False 5 (idle_world\<lparr>ninsns := 4\<rparr>) = idle_world\<lparr>ninsns := 5\<rparr> \<and>
   break_check False 1 (idle_world\<lparr>ninsns := 10\<rparr>) = idle_world\<lparr>ninsns := 0\<rparr> \<and>
   break_check False 5 (idle_world\<lparr>box_displayed := True\<rparr>) =
     idle_world\<lparr>box_displayed := True\<rparr> \<and>
   break_check True 5 idle_world = idle_world\<lparr>interrupt := True\<rparr>"
proof -
  have a: "break_check False 5 (idle_world\<lparr>ninsns := 10\<rparr>) =
      idle_world\<lparr>ninsns := 0, box_displayed := True,
        ui := [ShowWaitBox ''Running Python script'']\<rparr>"
    using break_check_cases [of 5 "idle_world\<lparr>ninsns := 10\<rparr>"]
    by (simp add: idle_world_def)
  have b: "break_check False 5 (idle_world\<lparr>ninsns := 4\<rparr>) = idle_world\<lparr>ninsns := 5\<rparr>"
    using break_check_cases [of 5 "idle_world\<lparr>ninsns := 4\<rparr>"]
    by (simp add: idle_world_def)
  have c: "break_check False 1 (idle_world\<lparr>ninsns := 10\<rparr>) = idle_world\<lparr>ninsns := 0\<rparr>"
    using break_check_cases [of 1 "idle_world\<lparr>ninsns := 10\<rparr>"]
    by (simp add: idle_world_def)
  have d: "break_check False 5 (idle_world\<lparr>box_displayed := True\<rparr>) =
      idle_world\<lparr>box_displayed := True\<rparr>"
    using break_check_cases [of 5 "idle_world\<lparr>box_displayed := True\<rparr>"]
    by simp
  have e: "break_check True 5 idle_world = idle_world\<lparr>interrupt := True\<rparr>"
    using break_check_cases [of 5 idle_world] by simp
  from a b c d e show ?thesis by simp
qed



theorem nested_begin_reinstalls_end_uninstalls_witness:
  "begin_execution 200
     (window_run (replicate 11 (Hook False 100)) (begin_execution 0 idle_world)) =
     idle_world\<lparr>ui := [ShowWaitBox ''Running Python script'', HideWaitBox],
       start_time := 200, tracefunc := BreakCheck\<rparr> \<and>
   begin_execution 9 (begin_execution 7 idle_world) = begin_execution 9 idle_world \<and>
   tracefunc (end_execution (begin_execution 9 (begin_execution 7 idle_world))) = NoTrace"
proof -
  have run: "window_run (replicate 11 (Hook False 100)) (begin_execution 0 idle_world) =
      idle_world\<lparr>ui := [ShowWaitBox ''Running Python script''], box_displayed := True,
        tracefunc := BreakCheck\<rparr>"
    by (simp add: numeral_eq_Suc begin_execution_def end_execution_def
        hide_script_waitbox_def reset_execution_time_def idle_world_def break_check_def
        Let_def)
  have a: "begin_execution 200
     (window_run (replicate 11 (Hook False 100)) (begin_execution 0 idle_world)) =
     idle_world\<lparr>ui := [ShowWaitBox ''Running Python script'', HideWaitBox],
       start_time := 200, tracefunc := BreakCheck\<rparr>"
    using nested_begin_reinstalls_end_uninstalls
      [of 200 "window_run (replicate 11 (Hook False 100)) (begin_execution 0 idle_world)",
        THEN conjunct1]
    unfolding run by (simp add: idle_world_def)
  have b: "begin_execution 9 (begin_execution 7 idle_world) = begin_execution 9 idle_world"
    using nested_begin_reinstalls_end_uninstalls
      [of 7 idle_world 9, THEN conjunct2, THEN conjunct2, THEN conjunct1] .
  have c: "tracefunc (end_execution (begin_execution 9 (begin_execution 7 idle_world)))
      = NoTrace"
    using nested_begin_reinstalls_end_uninstalls
      [of 7 idle_world 9, THEN conjunct2, THEN conjunct2, THEN conjunct2] .
  from a b c show ?thesis by blast
qed


lemma strchr_None: "(strchr str c = None) = (c \<notin> set str)"
  by (induction str) auto

lemma strchr_first: "c \<notin> set m \<Longrightarrow> strchr (m @ c # rest) c = Some (length m)"
  by (induction m) auto



lemma parse_py_modname_plain:
  assumes "CHR ''.'' \<notin> set full_name" and "length full_name < sz"
  shows "parse_py_modname full_name modname attrname sz defmod =
           Inr (False, take (sz - 1) defmod, full_name)"
proof -
  have "strchr full_name CHR ''.'' = None" using assms(1) by (simp add: strchr_None)
  moreover have "length full_name \<le> sz - 1" "sz \<noteq> 0" using assms(2) by arith+
  ultimately show ?thesis by (simp add: parse_py_modname_def qstrncpy_def)
qed

lemma parse_py_modname_dotted:
  assumes "full_name = m @ CHR ''.'' # leaf" and "CHR ''.'' \<notin> set m"
    and "length full_name < sz"
  shows "parse_py_modname full_name modname attrname sz defmod = Inr (True, m, leaf)"
proof -
  have "strchr full_name CHR ''.'' = Some (length m)"
    using assms(1,2) by (simp add: strchr_first)
  moreover have "length m + 1 + length leaf < sz" using assms(1,3) by simp
  ultimately show ?thesis using assms(1) by (simp add: parse_py_modname_def qstrncpy_def)
qed


text \<open>
  C5: for a qualified name shorter than the buffer size \<open>sz\<close>,
  \<^verbatim>\<open>parse_py_modname\<close> splits at the first \<^verbatim>\<open>'.'\<close> only. Without a separator it
  returns false, the module part is the default module (which has to fit as well) and
  the leaf is the whole input. With the name written as \<open>m\<close>, a separator and
  \<open>leaf\<close>, where \<open>m\<close> has no separator, it returns true, the module part is
  \<open>m\<close> and the leaf is \<open>leaf\<close>, later separators included.
\<close>

theorem parse_py_modname_first_dot:
  assumes fits: "length full_name < sz"
  shows "(CHR ''.'' \<notin> set full_name \<and> length defmod < sz \<longrightarrow>
            parse_py_modname full_name modname attrname sz defmod
              = Inr (False, defmod, full_name)) \<and>
         (\<forall>m leaf. full_name = m @ CHR ''.'' # leaf \<and> CHR ''.'' \<notin> set m \<longrightarrow>
            parse_py_modname full_name modname attrname sz defmod = Inr (True, m, leaf))"
proof (intro conjI impI allI)
  assume a: "CHR ''.'' \<notin> set full_name \<and> length defmod < sz"
  then have "length defmod \<le> sz - 1" by arith
  then have "take (sz - 1) defmod = defmod" by simp
  with a fits show "parse_py_modname full_name modname attrname sz defmod
      = Inr (False, defmod, full_name)"
    by (simp add: parse_py_modname_plain)
next
  fix m leaf
  assume "full_name = m @ CHR ''.'' # leaf \<and> CHR ''.'' \<notin> set m"
  with fits show "parse_py_modname full_name modname attrname sz defmod = Inr (True, m, leaf)"
    by (simp add: parse_py_modname_dotted)
qed

theorem parse_py_modname_first_dot_witness:
  "parse_py_modname ''mod.sub.leaf'' [] [] 1024 ''main'' = Inr (True, ''mod'', ''sub.leaf'') \<and>
   parse_py_modname ''leaf'' [] [] 1024 ''main'' = Inr (False, ''main'', ''leaf'')"
proof -
  have f: "length ''mod.sub.leaf'' < (1024::nat)" by simp
  have split: "''mod.sub.leaf'' = ''mod'' @ CHR ''.'' # ''sub.leaf'' \<and> CHR ''.'' \<notin> set ''mod''"
    by simp
  have a: "parse_py_modname ''mod.sub.leaf'' [] [] 1024 ''main'' = Inr (True, ''mod'', ''sub.leaf'')"
    using parse_py_modname_first_dot [OF f, where defmod = "''main''" and modname = "[]"
        and attrname = "[]"] split
    by blast
  have g: "length ''leaf'' < (1024::nat)" by simp
  have nodot: "CHR ''.'' \<notin> set ''leaf'' \<and> length ''main'' < (1024::nat)" by simp
  have b: "parse_py_modname ''leaf'' [] [] 1024 ''main'' = Inr (False, ''main'', ''leaf'')"
    using parse_py_modname_first_dot [OF g, where defmod = "''main''" and modname = "[]"
        and attrname = "[]"] nodot
    by blast
  from a b show ?thesis by simp
qed

text \<open>
  C7: \<^verbatim>\<open>IDAPython_extlang_call_method\<close> with neither an object nor a method name
  returns false with the usage message in the error buffer (cut to the buffer's size)
  and hands back the world as it was given, whatever the environment's functions are:
  no attribute is looked up and nothing is called. With no object and a method name it
  is \<^verbatim>\<open>IDAPython_extlang_run\<close> of that name with the same arguments, result slot and
  error buffer: the same outcome and the same world.
\<close>

theorem call_method_without_object:
  "IDAPython_extlang_call_method env None None args result errbuf n s =
     Inr (False, result,
          (if n = 0 then errbuf
           else take (n - 1) ''call_method does not support this operation''), s) \<and>
   IDAPython_extlang_call_method env None (Some method) args result errbuf n s =
     IDAPython_extlang_run env method args result errbuf n s"
  by (simp add: IDAPython_extlang_call_method_def qstrncpy_def)

theorem call_method_without_object_witness:
  "IDAPython_extlang_call_method sample_env None None [] None [] 1024 sample_world =
     Inr (False, None, ''call_method does not support this operation'', sample_world) \<and>
   IDAPython_extlang_call_method sample_env None (Some ''f'') [] None [] 1024 sample_world =
     IDAPython_extlang_run sample_env ''f'' [] None [] 1024 sample_world"
  using call_method_without_object [of sample_env "[]" None "[]" 1024 sample_world "''f''"]
  by simp



text \<open>
  C10: \<^verbatim>\<open>IDAPython_cli_execute_line\<close> on the empty string returns true and the world
  exactly as it was given, for every environment and clock value: no execution window
  is opened, nothing is rewritten and nothing is executed.
\<close>

theorem cli_execute_line_empty:
  "IDAPython_cli_execute_line env now [] s = (True, s)"
  by (simp add: IDAPython_cli_execute_line_def)

theorem cli_execute_line_empty_witness:
  "IDAPython_cli_execute_line sample_env 0 [] sample_world = (True, sample_world)"
  using cli_execute_line_empty [of sample_env 0 sample_world] by simp



lemma Py_DECREF_fields [simp]:
  "attrs (Py_DECREF r s) = attrs s" "strval (Py_DECREF r s) = strval s"
  "str_of (Py_DECREF r s) = str_of s" "modules (Py_DECREF r s) = modules s"
  "pyerr (Py_DECREF r s) = pyerr s"
  by (simp_all add: Py_DECREF_def)

lemma Py_INCREF_fields [simp]:
  "attrs (Py_INCREF r s) = attrs s" "strval (Py_INCREF r s) = strval s"
  "str_of (Py_INCREF r s) = str_of s" "modules (Py_INCREF r s) = modules s"
  "pyerr (Py_INCREF r s) = pyerr s"
  by (simp_all add: Py_INCREF_def)

lemma Py_XDECREF_fields [simp]:
  "attrs (Py_XDECREF p s) = attrs s" "strval (Py_XDECREF p s) = strval s"
  "modules (Py_XDECREF p s) = modules s"
  by (simp_all add: Py_XDECREF_def split: option.splits)

lemma global_namespace_Py_XDECREF [simp]:
  "global_namespace (Py_XDECREF p s) = global_namespace s"
  by (simp add: global_namespace_def split: option.splits)

text \<open>
  C1: for every Python result object \<open>r\<close> passed to \<^verbatim>\<open>return_python_result\<close>,
  with \<open>cvt\<close> the conversion outcome and \<open>s1\<close> the world after the conversion: the
  function returns true if and only if \<open>cvt\<close> is at least \<^verbatim>\<open>CIP_OK\<close>, and the
  world it leaves is \<open>s1\<close> with the count of \<open>r\<close> lowered by one when \<open>cvt\<close> is
  not \<^verbatim>\<open>CIP_OK_NODECREF\<close>, and \<open>s1\<close> itself when it is. With a \<^verbatim>\<open>NULL\<close> result
  object it returns false, leaves the result slot alone and reports through
  \<^verbatim>\<open>handle_python_error\<close>: an empty buffer when no error is pending, the pending
  error's text (cut to the buffer) when there is one.
\<close>

theorem return_python_result_contract:
  "(case conversion_outcome env idc_result r s of
      (cvt, s1) \<Rightarrow>
        (case return_python_result env idc_result (Some r) errbuf n s of
           (ok, res, eb, s') \<Rightarrow>
             ok = (CIP_OK env \<le> cvt) \<and>
             s' = (if cvt \<noteq> CIP_OK_NODECREF env then Py_DECREF r s1 else s1) \<and>
             refcnt s' r =
               (if cvt \<noteq> CIP_OK_NODECREF env then refcnt s1 r - 1 else refcnt s1 r))) \<and>
   (case handle_python_error env errbuf n True s of
      (eb, s1) \<Rightarrow> return_python_result env idc_result None errbuf n s
                   = (False, idc_result, eb, s1)) \<and>
   (pyerr s = None \<longrightarrow>
      return_python_result env idc_result None errbuf n s
        = (False, idc_result, if 0 < n then [] else errbuf, s)) \<and>
   (\<forall>text s1. pyerr s \<noteq> None \<and> PyW_GetError env True s = (True, text, s1) \<longrightarrow>
      return_python_result env idc_result None errbuf n s
        = (False, idc_result, if 0 < n then take (n - 1) text else errbuf, s1))"
proof (intro conjI)
  show "case conversion_outcome env idc_result r s of
      (cvt, s1) \<Rightarrow>
        (case return_python_result env idc_result (Some r) errbuf n s of
           (ok, res, eb, s') \<Rightarrow>
             ok = (CIP_OK env \<le> cvt) \<and>
             s' = (if cvt \<noteq> CIP_OK_NODECREF env then Py_DECREF r s1 else s1) \<and>
             refcnt s' r =
               (if cvt \<noteq> CIP_OK_NODECREF env then refcnt s1 r - 1 else refcnt s1 r))"
    by (simp add: conversion_outcome_def return_python_result_def Py_XDECREF_def
        Py_DECREF_def Let_def split: option.splits prod.splits)
next
  show "case handle_python_error env errbuf n True s of
      (eb, s1) \<Rightarrow> return_python_result env idc_result None errbuf n s
                   = (False, idc_result, eb, s1)"
    by (simp add: return_python_result_def handle_python_error_def Let_def
        split: prod.splits)
next
  show "pyerr s = None \<longrightarrow>
      return_python_result env idc_result None errbuf n s
        = (False, idc_result, if 0 < n then [] else errbuf, s)"
    by (simp add: return_python_result_def handle_python_error_def PyErr_Occurred_def Let_def)
next
  show "\<forall>text s1. pyerr s \<noteq> None \<and> PyW_GetError env True s = (True, text, s1) \<longrightarrow>
      return_python_result env idc_result None errbuf n s
        = (False, idc_result, if 0 < n then take (n - 1) text else errbuf, s1)"
    by (simp add: return_python_result_def handle_python_error_def PyErr_Occurred_def Let_def
        qstrncpy_def)
qed


theorem return_python_result_contract_witness:
  "return_python_result sample_env (Some idc_clear) (Some 4) [] 1024 sample_world =
     (True, Some (VT_STR2 ''Widget''), [], Py_DECREF 4 sample_world) \<and>
   refcnt (Py_DECREF 4 sample_world) 4 = 0 \<and>
   return_python_result sample_env (Some idc_clear) (Some 2) [] 1024 sample_world =
     (True, Some (VT_OBJ 2), [], sample_world) \<and>
   refcnt sample_world 2 = 1 \<and>
   return_python_result sample_env (Some idc_clear) None [] 1024
       (sample_world\<lparr>pyerr := Some ''boom''\<rparr>) =
     (False, Some idc_clear, ''boom'', sample_world)"
proof -
  have a: "return_python_result sample_env (Some idc_clear) (Some 4) [] 1024 sample_world =
     (True, Some (VT_STR2 ''Widget''), [], Py_DECREF 4 sample_world)"
    using return_python_result_contract [where env = sample_env and idc_result = "Some idc_clear"
        and r = 4 and s = sample_world and errbuf = "[]" and n = 1024]
    by (simp add: conversion_outcome_def return_python_result_def sample_env_def
        sample_world_def Py_XDECREF_def)
  have b: "refcnt (Py_DECREF 4 sample_world) 4 = 0"
    by (simp add: Py_DECREF_def sample_world_def)
  have c: "return_python_result sample_env (Some idc_clear) (Some 2) [] 1024 sample_world =
     (True, Some (VT_OBJ 2), [], sample_world)"
    using return_python_result_contract [where env = sample_env and idc_result = "Some idc_clear"
        and r = 2 and s = sample_world and errbuf = "[]" and n = 1024]
    by (simp add: conversion_outcome_def return_python_result_def sample_env_def
        sample_world_def Py_XDECREF_def)
  have d: "refcnt sample_world 2 = 1" by (simp add: sample_world_def)
  have e: "return_python_result sample_env (Some idc_clear) None [] 1024
       (sample_world\<lparr>pyerr := Some ''boom''\<rparr>) =
     (False, Some idc_clear, ''boom'', sample_world)"
    using return_python_result_contract [where env = sample_env and idc_result = "Some idc_clear"
        and r = 0 and s = "sample_world\<lparr>pyerr := Some ''boom''\<rparr>" and errbuf = "[]"
        and n = 1024]
    by (simp add: return_python_result_def handle_python_error_def PyErr_Occurred_def
        qstrncpy_def sample_env_def sample_world_def idle_world_def)
  from a b c d e show ?thesis by simp
qed






lemma PyObject_GetAttrString_Some:
  "attrs s ob a = Some v \<Longrightarrow> PyObject_GetAttrString ob a s = (Some v, Py_INCREF v s)"
  by (simp add: PyObject_GetAttrString_def)

lemma PyObject_GetAttrString_None:
  "attrs s ob a = None \<Longrightarrow>
   PyObject_GetAttrString ob a s = (None, s\<lparr>pyerr := Some (''AttributeError: '' @ a)\<rparr>)"
  by (simp add: PyObject_GetAttrString_def)

lemma PyObject_Str_string:
  "strval s ob = Some t \<Longrightarrow> PyObject_Str ob s = (Some ob, Py_INCREF ob s)"
  by (simp add: PyObject_Str_def)

lemma PyString_AsString_string:
  "strval s ob = Some t \<Longrightarrow> PyString_AsString ob s = (Some t, s)"
  by (simp add: PyString_AsString_def)

text \<open>
  C8, amended: let \<^verbatim>\<open>IDAPython_extlang_get_attr\<close> accept the object (the main module
  is imported and lines 816-848 yield the object \<open>ob\<close>), let the attribute name be
  \<^verbatim>\<open>NULL\<close> or empty and let there be a result slot. If \<open>ob\<close> has a
  \<^verbatim>\<open>__class__\<close>, the class has a \<^verbatim>\<open>__name__\<close> and that name is a Python string,
  the function stores the characters of the name in the result and returns true, and no
  attribute table is changed. If \<^verbatim>\<open>__class__\<close> cannot be fetched it returns false
  and leaves the result as it was (\<^verbatim>\<open>CIP_FAILED\<close> being below \<^verbatim>\<open>CIP_OK\<close>).
\<close>

theorem get_attr_empty_name_is_type_name:
  assumes imp: "PyW_TryImportModule env S_MAIN s = (Some py_mod, s1)"
    and found: "get_attr_object env obj py_mod s1 = (True, cvt, Some ob, is_opaque, s2)"
    and noattr: "attr = None \<or> attr = Some []"
  shows "(\<forall>cls nm clsname.
            attrs s2 ob ''__class__'' = Some cls \<and> attrs s2 cls ''__name__'' = Some nm \<and>
            strval s2 nm = Some clsname \<longrightarrow>
            (\<exists>s'. IDAPython_extlang_get_attr env obj attr (Some old) s
                     = Inr (True, Some (VT_STR2 clsname), s') \<and>
                   attrs s' = attrs s2)) \<and>
         (attrs s2 ob ''__class__'' = None \<and> CIP_FAILED env < CIP_OK env \<longrightarrow>
            (\<exists>s'. IDAPython_extlang_get_attr env obj attr (Some old) s
                     = Inr (False, Some old, s')))"
proof (intro conjI allI impI)
  fix cls nm clsname
  assume h: "attrs s2 ob ''__class__'' = Some cls \<and> attrs s2 cls ''__name__'' = Some nm \<and>
            strval s2 nm = Some clsname"
  let ?s3 = "Py_INCREF cls s2"
  let ?s4 = "Py_INCREF nm ?s3"
  let ?s5 = "Py_DECREF cls ?s4"
  let ?s6 = "Py_INCREF nm ?s5"
  let ?s7 = "Py_DECREF nm ?s6"
  have g1: "PyObject_GetAttrString ob ''__class__'' s2 = (Some cls, ?s3)"
    using h by (simp add: PyObject_GetAttrString_Some)
  have g2: "PyObject_GetAttrString cls ''__name__'' ?s3 = (Some nm, ?s4)"
    using h by (simp add: PyObject_GetAttrString_Some)
  have g3: "PyObject_Str nm ?s5 = (Some nm, ?s6)"
    using h by (simp add: PyObject_Str_string)
  have g4: "PyString_AsString nm ?s7 = (Some clsname, ?s7)"
    using h by (simp add: PyString_AsString_string)
  have "IDAPython_extlang_get_attr env obj attr (Some old) s =
      Inr (get_attr_exit env obj (CIP_OK env) (Some py_mod) (Some ob) is_opaque
             (Some (VT_STR2 clsname)) ?s7)"
    using noattr
    by (simp add: IDAPython_extlang_get_attr_def imp found g1 g2 g3 g4 Let_def
        del: Py_INCREF_fields Py_DECREF_fields)
  then show "\<exists>s'. IDAPython_extlang_get_attr env obj attr (Some old) s
                     = Inr (True, Some (VT_STR2 clsname), s') \<and> attrs s' = attrs s2"
    by (simp add: get_attr_exit_def Let_def)
next
  assume h: "attrs s2 ob ''__class__'' = None \<and> CIP_FAILED env < CIP_OK env"
  have g1: "PyObject_GetAttrString ob ''__class__'' s2
      = (None, s2\<lparr>pyerr := Some (''AttributeError: '' @ ''__class__'')\<rparr>)"
    using h by (simp add: PyObject_GetAttrString_None)
  have "IDAPython_extlang_get_attr env obj attr (Some old) s =
      Inr (get_attr_exit env obj (CIP_FAILED env) (Some py_mod) (Some ob) is_opaque
             (Some old) (s2\<lparr>pyerr := Some (''AttributeError: '' @ ''__class__'')\<rparr>))"
    using noattr
    by (simp add: IDAPython_extlang_get_attr_def imp found g1 Let_def)
  with h show "\<exists>s'. IDAPython_extlang_get_attr env obj attr (Some old) s
                     = Inr (False, Some old, s')"
    by (simp add: get_attr_exit_def Let_def)
qed

text \<open>
  C8 as the claim states it fails: the opaque handle of object 7 is accepted, but its
  \<^verbatim>\<open>__class__\<close> cannot be fetched; \<^verbatim>\<open>PyObject_GetAttrString\<close> returns
  \<^verbatim>\<open>NULL\<close>, the function leaves the \<^verbatim>\<open>do\<close> block with \<^verbatim>\<open>CIP_FAILED\<close> and
  returns false with the result untouched.
\<close>

theorem get_attr_unfetchable_class_returns_false:
  "get_attr_object sample_env (Some (VT_OBJ 7)) 1 (Py_INCREF 1 sample_world)
     = (True, 2, Some 7, True, Py_INCREF 1 sample_world) \<and>
   IDAPython_extlang_get_attr sample_env (Some (VT_OBJ 7)) (Some []) (Some idc_clear) sample_world
     = Inr (False, Some idc_clear,
            sample_world\<lparr>pyerr := Some ''AttributeError: __class__''\<rparr>)"
  by (simp add: IDAPython_extlang_get_attr_def get_attr_object_def get_attr_exit_def
      PyObject_GetAttrString_def Py_XDECREF_def Py_DECREF_def Py_INCREF_def S_MAIN_def
      sample_env_def sample_world_def idle_world_def Let_def fun_upd_idem)

theorem get_attr_empty_name_is_type_name_witness:
  "\<exists>s'. IDAPython_extlang_get_attr sample_env (Some (VT_STR2 ''x'')) None (Some idc_clear)
           sample_world = Inr (True, Some (VT_STR2 ''Widget''), s')"
proof -
  have imp: "PyW_TryImportModule sample_env S_MAIN sample_world
      = (Some 1, Py_INCREF 1 sample_world)"
    by (simp add: sample_env_def sample_world_def S_MAIN_def)
  have found: "get_attr_object sample_env (Some (VT_STR2 ''x'')) 1 (Py_INCREF 1 sample_world)
      = (True, CIP_FAILED sample_env, Some 2, False, Py_INCREF 2 (Py_INCREF 1 sample_world))"
    by (simp add: get_attr_object_def sample_env_def sample_world_def Py_INCREF_def)
  have h: "attrs (Py_INCREF 2 (Py_INCREF 1 sample_world)) 2 ''__class__'' = Some 3 \<and>
      attrs (Py_INCREF 2 (Py_INCREF 1 sample_world)) 3 ''__name__'' = Some 4 \<and>
      strval (Py_INCREF 2 (Py_INCREF 1 sample_world)) 4 = Some ''Widget''"
    by (simp add: sample_world_def)
  from get_attr_empty_name_is_type_name [OF imp found, of None idc_clear] h
  show ?thesis by blast
qed


end
